theory Spec2Isabelle
  imports Complex_Main "HOL-Library.Multiset"
begin

section \<open>Results and the numeric primitives\<close>

text \<open>
  The analytic engine of the equation visualizer (\<^verbatim>\<open>utils/math_utils.py\<close> and the
  computation functions of \<^verbatim>\<open>modules/*.py\<close>) is embedded over the real numbers: a
  Python \<^verbatim>\<open>float\<close> is a \<^typ>\<open>real\<close>, a list or a one-dimensional numpy array of
  floats is a \<^typ>\<open>real list\<close>. Rounding and the special values of IEEE arithmetic
  (a product or quotient that saturates to an infinity, \<^verbatim>\<open>nan\<close>) are outside this model;
  the exceptions of the arithmetic are inside it.

  Every way in which an arithmetic step of the source can fail is a value of the type
  \<open>error\<close>, and a function that contains such a step returns \<open>error + 'a\<close>.
\<close>

datatype error =
    ZeroDivisionError
  | OverflowError
  | ValueError string
  | InvalidValue

definition res_bind :: "error + 'a \<Rightarrow> ('a \<Rightarrow> error + 'b) \<Rightarrow> error + 'b" where
  "res_bind m f = (case m of Inl e \<Rightarrow> Inl e | Inr v \<Rightarrow> f v)"

text \<open>
  Python's \<^verbatim>\<open>x / y\<close> on floats raises \<^verbatim>\<open>ZeroDivisionError\<close> when \<^verbatim>\<open>y\<close> is zero. Where
  the numerator is a numpy scalar the source would produce an infinity and a warning
  instead; the model keeps the stricter Python rule for every division.
\<close>

definition py_div :: "real \<Rightarrow> real \<Rightarrow> error + real" where
  "py_div x y = (if y = 0 then Inl ZeroDivisionError else Inr (x / y))"

text \<open>
  \<^verbatim>\<open>np.sqrt\<close> of a negative float is \<^verbatim>\<open>nan\<close> with a runtime warning. The model has no
  \<^verbatim>\<open>nan\<close>: it reports that case as the error \<open>InvalidValue\<close>, so a result \<open>Inr v\<close>
  is a real number obtained without any failed step.
\<close>

definition np_sqrt :: "real \<Rightarrow> error + real" where
  "np_sqrt x = (if x < 0 then Inl InvalidValue else Inr (sqrt x))"

text \<open>
  Python's \<^verbatim>\<open>x ** n\<close> on floats raises \<^verbatim>\<open>OverflowError\<close> when the power is too large for
  a float (a product or a quotient that is too large is an infinity instead, and raises
  nothing). The largest float is \<^verbatim>\<open>sys.float_info.max\<close>, that is \<open>2 ^ 1024 - 2 ^ 971\<close>; the
  model raises when the exact power exceeds it (whether a power just above the largest
  float is still rounded down to it is a matter of rounding, which the model leaves
  out). A power that is too small for a float is zero in the source and raises nothing.
\<close>

definition float_max :: real where
  "float_max = 2 ^ 1024 - 2 ^ 971"

definition py_pow :: "real \<Rightarrow> nat \<Rightarrow> error + real" where
  "py_pow x n = (if float_max < \<bar>x ^ n\<bar> then Inl OverflowError else Inr (x ^ n))"

section \<open>Polynomial core (\<^verbatim>\<open>utils/math_utils.py\<close>)\<close>

text \<open>
  \<^verbatim>\<open>
  def polynomial_derivative(coeffs):
      n = len(coeffs)
      if n <= 1:
          return [0.0]
      return [coeffs[i] * (n - 1 - i) for i in range(n - 1)]
  \<close>
  Every index \<open>i\<close> of the comprehension is below \<open>n - 1\<close>, so \<open>coeffs[i]\<close> is in
  range and \<open>n - 1 - i\<close> is a positive integer.
\<close>

definition polynomial_derivative :: "real list \<Rightarrow> real list" where
  "polynomial_derivative coeffs =
     (let n = length coeffs
      in if n \<le> 1 then [0]
         else map (\<lambda>i. coeffs ! i * real (n - 1 - i)) [0..<n - 1])"

text \<open>
  \<^verbatim>\<open>
  def find_real_roots(coefficients):
      roots = np.roots(coefficients)
      real_roots = [r.real for r in roots if abs(r.imag) < 1e-8]
      return sorted(real_roots)
  \<close>
\<close>

text \<open>
  Modelled from the spec: \<^verbatim>\<open>np.roots\<close> is a routine of the numpy library and is not
  under \<^verbatim>\<open>src/\<close>. The spec describes it as the eigenvalues of the companion matrix of
  the coefficient sequence, with an empty result for all-zero coefficients. The
  eigenvalue solver is the parameter \<open>eigvals\<close>, applied to the coefficients left after
  the leading and trailing zeros are stripped; each stripped trailing zero is a root at
  zero; a sequence with no non-zero entry has no roots.
\<close>

definition np_roots :: "(real list \<Rightarrow> complex list) \<Rightarrow> real list \<Rightarrow> complex list" where
  "np_roots eigvals p =
     (let q = dropWhile (\<lambda>c. c = 0) p;
          trailing_zeros = length (takeWhile (\<lambda>c. c = 0) (rev q));
          core = rev (dropWhile (\<lambda>c. c = 0) (rev q))
      in if core = [] then []
         else (if 1 < length core then eigvals core else []) @ replicate trailing_zeros 0)"

definition find_real_roots :: "(real list \<Rightarrow> complex list) \<Rightarrow> real list \<Rightarrow> real list" where
  "find_real_roots eigvals coefficients =
     (let roots = np_roots eigvals coefficients;
          real_roots = map Re (filter (\<lambda>r. \<bar>Im r\<bar> < 1 / 10 ^ 8) roots)
      in sort real_roots)"

section \<open>Sampling (\<^verbatim>\<open>utils/math_utils.py\<close>)\<close>

text \<open>
  Modelled from the spec: \<^verbatim>\<open>np.linspace\<close> is a routine of the numpy library and is not
  under \<^verbatim>\<open>src/\<close>. The spec describes its result as \<open>count\<close> reals evenly spaced over the
  closed interval. As in numpy, with the end point included the number of steps is
  \<open>steps = num - 1\<close>; the samples are \<open>start + i * (delta / steps)\<close> when \<open>steps > 0\<close> and
  \<open>start + i * delta\<close> otherwise, which for a single sample is the start point. The
  count is a natural number (numpy rejects a negative one, which no caller of the engine
  passes).
\<close>

definition np_linspace :: "real \<Rightarrow> real \<Rightarrow> nat \<Rightarrow> real list" where
  "np_linspace start stop num =
     (let steps = num - 1;
          delta = stop - start
      in map (\<lambda>i. if 0 < steps then start + real i * (delta / real steps)
                   else start + real i * delta) [0..<num])"

text \<open>
  \<^verbatim>\<open>
  def safe_linspace(start, end, num=1000):
      if start >= end:
          end = start + 1e-6
      return np.linspace(start, end, num)
  \<close>
\<close>

definition safe_linspace :: "real \<Rightarrow> real \<Rightarrow> nat \<Rightarrow> real list" where
  "safe_linspace start stop num =
     (let stop' = (if start \<ge> stop then start + 1 / 10 ^ 6 else stop)
      in np_linspace start stop' num)"

section \<open>Quadratic analyzer (\<^verbatim>\<open>utils/math_utils.py\<close>)\<close>

text \<open>
  \<^verbatim>\<open>
  def quadratic_discriminant(a, b, c):
      return b ** 2 - 4 * a * c
  \<close>
\<close>

definition quadratic_discriminant :: "real \<Rightarrow> real \<Rightarrow> real \<Rightarrow> error + real" where
  "quadratic_discriminant a b c =
     res_bind (py_pow b 2) (\<lambda>b2. Inr (b2 - 4 * a * c))"

text \<open>
  The first component of the result of \<^verbatim>\<open>quadratic_roots\<close> is a formatted string. Its
  five shapes are the constructors of \<open>nature\<close>; the numbers that the source formats into
  the string (the discriminant, the real part and the magnitude of the imaginary part)
  are their arguments.
\<close>

datatype nature =
    Constant_no_roots
  | Linear_one_root
  | Two_distinct_real_roots real
  | One_repeated_real_root
  | Two_complex_roots real real real

text \<open>
  \<^verbatim>\<open>
  def quadratic_roots(a, b, c):
      if abs(a) < 1e-12:
          if abs(b) < 1e-12:
              return "Constant (no roots)", []
          return "Linear (one root)", [-c / b]
      D = quadratic_discriminant(a, b, c)
      if D > 0:
          r1 = (-b + np.sqrt(D)) / (2 * a)
          r2 = (-b - np.sqrt(D)) / (2 * a)
          return f"Two distinct real roots (D={D:.4f})", sorted([r1, r2])
      elif abs(D) < 1e-10:
          r = -b / (2 * a)
          return f"One repeated real root (D~0)", [r]
      else:
          re = -b / (2 * a)
          im = np.sqrt(-D) / (2 * a)
          return f"Two complex roots: {re:.3f} +- {abs(im):.3f}i (D={D:.4f})", []
  \<close>
\<close>

definition quadratic_roots :: "real \<Rightarrow> real \<Rightarrow> real \<Rightarrow> error + (nature \<times> real list)" where
  "quadratic_roots a b c =
     (if \<bar>a\<bar> < 1 / 10 ^ 12 then
        (if \<bar>b\<bar> < 1 / 10 ^ 12 then Inr (Constant_no_roots, [])
         else res_bind (py_div (- c) b) (\<lambda>r. Inr (Linear_one_root, [r])))
      else
        res_bind (quadratic_discriminant a b c) (\<lambda>D.
            if D > 0 then
              res_bind (np_sqrt D) (\<lambda>s1.
              res_bind (py_div (- b + s1) (2 * a)) (\<lambda>r1.
              res_bind (np_sqrt D) (\<lambda>s2.
              res_bind (py_div (- b - s2) (2 * a)) (\<lambda>r2.
              Inr (Two_distinct_real_roots D, sort [r1, r2])))))
            else if \<bar>D\<bar> < 1 / 10 ^ 10 then
              res_bind (py_div (- b) (2 * a)) (\<lambda>r. Inr (One_repeated_real_root, [r]))
            else
              res_bind (py_div (- b) (2 * a)) (\<lambda>re.
              res_bind (np_sqrt (- D)) (\<lambda>s.
              res_bind (py_div s (2 * a)) (\<lambda>im.
              Inr (Two_complex_roots re \<bar>im\<bar> D, []))))))"


section \<open>Linear analyzer (\<^verbatim>\<open>modules/linear.py\<close>)\<close>



section \<open>Cubic analyzer (\<^verbatim>\<open>modules/cubic.py\<close>)\<close>


section \<open>Trigonometric analyzer (\<^verbatim>\<open>modules/trigonometric.py\<close>)\<close>

text \<open>
  \<^verbatim>\<open>
  def compute_trig(A, B, C, func, x):
      if B == 0:
          return np.zeros_like(x)
      arg = B * x + C
      if func == "sin":
          return A * np.sin(arg)
      elif func == "cos":
          return A * np.cos(arg)
      else:
          raise ValueError(f"Unknown trig function: {func}")
  \<close>
\<close>

definition compute_trig :: "real \<Rightarrow> real \<Rightarrow> real \<Rightarrow> string \<Rightarrow> real list \<Rightarrow> error + real list" where
  "compute_trig A B C func x =
     (if B = 0 then Inr (replicate (length x) 0)
      else
        (let arg = map (\<lambda>xj. B * xj + C) x
         in if func = ''sin'' then Inr (map (\<lambda>t. A * sin t) arg)
            else if func = ''cos'' then Inr (map (\<lambda>t. A * cos t) arg)
            else Inl (ValueError (''Unknown trig function: '' @ func))))"

text \<open>The period is the only property that can be \<^verbatim>\<open>float("inf")\<close>.\<close>

datatype period_value = Finite real | Infinite

record trig_props =
  amplitude :: real
  angular_freq :: real
  period :: period_value
  frequency :: real
  phase_shift :: real

text \<open>
  \<^verbatim>\<open>
  def trig_properties(A, B, C):
      if abs(B) < 1e-12:
          return {"amplitude": abs(A), "period": float("inf"), "frequency": 0.0,
                  "phase_shift": 0.0, "angular_freq": 0.0}
      return {"amplitude": abs(A), "angular_freq": B, "period": 2 * np.pi / abs(B),
              "frequency": abs(B) / (2 * np.pi), "phase_shift": -C / B}
  \<close>
\<close>

definition trig_properties :: "real \<Rightarrow> real \<Rightarrow> real \<Rightarrow> error + trig_props" where
  "trig_properties A B C =
     (if \<bar>B\<bar> < 1 / 10 ^ 12 then
        Inr \<lparr>amplitude = \<bar>A\<bar>, angular_freq = 0, period = Infinite,
             frequency = 0, phase_shift = 0\<rparr>
      else
        res_bind (py_div (2 * pi) \<bar>B\<bar>) (\<lambda>per.
        res_bind (py_div \<bar>B\<bar> (2 * pi)) (\<lambda>freq.
        res_bind (py_div (- C) B) (\<lambda>ps.
        Inr \<lparr>amplitude = \<bar>A\<bar>, angular_freq = B, period = Finite per,
             frequency = freq, phase_shift = ps\<rparr>))))"

text \<open>
  The animated figure of \<^verbatim>\<open>_animated_plot\<close>: the sample points, the initial curve and
  the list of frames. Titles, colours, layout and the play and pause buttons are
  presentation and are left out.
  \<^verbatim>\<open>
  def _animated_plot(A, B, C, func, x, title):
      fn = np.sin if func == "sin" else np.cos
      n_frames = 60
      phase_sweep = np.linspace(0, 2 * np.pi, n_frames)
      frames = []
      for phi in phase_sweep:
          y_frame = A * fn(B * x + C + phi)
          frames.append(go.Frame(data=[go.Scatter(x=x, y=y_frame, ...)]))
      y0 = A * fn(B * x + C)
      fig = go.Figure(data=[go.Scatter(x=x, y=y0, ...)], frames=frames, layout=...)
      return fig
  \<close>
\<close>

record animated_figure =
  anim_x :: "real list"
  anim_y0 :: "real list"
  anim_frames :: "real list list"

definition phase_sweep :: "real list" where
  "phase_sweep = np_linspace 0 (2 * pi) 60"

definition animated_plot :: "real \<Rightarrow> real \<Rightarrow> real \<Rightarrow> string \<Rightarrow> real list \<Rightarrow> animated_figure" where
  "animated_plot A B C func x =
     (let fn = (if func = ''sin'' then sin else cos);
          frames = map (\<lambda>phi. map (\<lambda>xj. A * fn (B * xj + C + phi)) x) phase_sweep;
          y0 = map (\<lambda>xj. A * fn (B * xj + C)) x
      in \<lparr>anim_x = x, anim_y0 = y0, anim_frames = frames\<rparr>)"

section \<open>Ellipse analyzer (\<^verbatim>\<open>modules/ellipse.py\<close>)\<close>

record ellipse_geometry =
  semi_major :: real
  semi_minor :: real
  area :: real
  eccentricity :: real
  focal_distance :: real
  major_axis_length :: real
  minor_axis_length :: real
  major_axis_along :: string

text \<open>
  The dictionary returned by \<^verbatim>\<open>ellipse_properties\<close> has either the single key
  \<^verbatim>\<open>"error"\<close> or the eight geometry keys.
\<close>

datatype ellipse_props = Ellipse_error string | Ellipse_geometry ellipse_geometry

text \<open>
  \<^verbatim>\<open>
  def ellipse_properties(a, b):
      if abs(a) < 1e-9 or abs(b) < 1e-9:
          return {"error": "Semi-axes must be non-zero"}
      major = max(abs(a), abs(b))
      minor = min(abs(a), abs(b))
      area  = np.pi * abs(a) * abs(b)
      ecc   = np.sqrt(1 - (minor / major) ** 2) if major > 0 else 0.0
      c     = np.sqrt(max(abs(a)**2 - abs(b)**2, 0))
      return {"semi_major": major, "semi_minor": minor, "area": area,
              "eccentricity": ecc, "focal_distance": c,
              "major_axis_length": 2 * major, "minor_axis_length": 2 * minor,
              "major_axis_along": "x-axis" if abs(a) >= abs(b) else "y-axis"}
  \<close>
\<close>

definition ellipse_properties :: "real \<Rightarrow> real \<Rightarrow> error + ellipse_props" where
  "ellipse_properties a b =
     (if \<bar>a\<bar> < 1 / 10 ^ 9 \<or> \<bar>b\<bar> < 1 / 10 ^ 9 then
        Inr (Ellipse_error ''Semi-axes must be non-zero'')
      else
        (let major = max \<bar>a\<bar> \<bar>b\<bar>;
             minor = min \<bar>a\<bar> \<bar>b\<bar>;
             ar = pi * \<bar>a\<bar> * \<bar>b\<bar>
         in res_bind (if major > 0
                      then res_bind (py_div minor major) (\<lambda>q.
                           res_bind (py_pow q 2) (\<lambda>q2. np_sqrt (1 - q2)))
                      else Inr 0) (\<lambda>ecc.
            res_bind (py_pow \<bar>a\<bar> 2) (\<lambda>a2.
            res_bind (py_pow \<bar>b\<bar> 2) (\<lambda>b2.
            res_bind (np_sqrt (max (a2 - b2) 0)) (\<lambda>c.
            Inr (Ellipse_geometry
                  \<lparr>semi_major = major, semi_minor = minor, area = ar,
                   eccentricity = ecc, focal_distance = c,
                   major_axis_length = 2 * major, minor_axis_length = 2 * minor,
                   major_axis_along = (if \<bar>a\<bar> \<ge> \<bar>b\<bar> then ''x-axis'' else ''y-axis'')\<rparr>)))))))"

text \<open>
  \<^verbatim>\<open>
  def parametric_ellipse(a, b, num=800):
      t = np.linspace(0, 2 * np.pi, num)
      return a * np.cos(t), b * np.sin(t)
  \<close>
\<close>

definition parametric_ellipse :: "real \<Rightarrow> real \<Rightarrow> nat \<Rightarrow> real list \<times> real list" where
  "parametric_ellipse a b num =
     (let t = np_linspace 0 (2 * pi) num
      in (map (\<lambda>u. a * cos u) t, map (\<lambda>u. b * sin u) t))"

text \<open>
  The figure of \<^verbatim>\<open>plot_ellipse\<close> is the list of the traces added to it, in order, and
  the list of its line shapes \<open>(x0, x1, y0, y1)\<close>; colours, labels and fonts are left
  out. The source adds, in this order: the closed curve; if the property bundle is the
  error bundle it returns here; the four vertex markers; the two focus markers, guarded
  by \<^verbatim>\<open>c > 1e-6\<close> and placed on the x-axis when \<^verbatim>\<open>abs(a) >= abs(b)\<close> and on the y-axis
  otherwise; the two axis lines.
  \<^verbatim>\<open>
      c = props["focal_distance"]
      if c > 1e-6:
          if abs(a) >= abs(b):
              foci = [(c, 0), (-c, 0)]
          else:
              foci = [(0, c), (0, -c)]
          for fx, fy in foci:
              fig.add_trace(go.Scatter(x=[fx], y=[fy], mode="markers", name=f"Focus ..."))
  \<close>
\<close>

datatype trace =
    Curve "real list" "real list"
  | Vertex_marker real real
  | Focus_marker real real

record figure =
  traces :: "trace list"
  shapes :: "(real \<times> real \<times> real \<times> real) list"

definition plot_ellipse :: "real \<Rightarrow> real \<Rightarrow> error + figure" where
  "plot_ellipse a b =
     (let (x, y) = parametric_ellipse a b 800;
          fig = \<lparr>traces = [Curve (x @ [x ! 0]) (y @ [y ! 0])], shapes = []\<rparr>
      in res_bind (ellipse_properties a b) (\<lambda>props.
         case props of
           Ellipse_error msg \<Rightarrow> Inr fig
         | Ellipse_geometry g \<Rightarrow>
             (let vertices = [(a, 0), (- a, 0), (0, b), (0, - b)];
                  fig1 = fig\<lparr>traces := traces fig @ map (\<lambda>(vx, vy). Vertex_marker vx vy) vertices\<rparr>;
                  c = focal_distance g;
                  fig2 =
                    (if c > 1 / 10 ^ 6 then
                       (let foci = (if \<bar>a\<bar> \<ge> \<bar>b\<bar> then [(c, 0), (- c, 0)]
                                    else [(0, c), (0, - c)])
                        in fig1\<lparr>traces := traces fig1 @ map (\<lambda>(fx, fy). Focus_marker fx fy) foci\<rparr>)
                     else fig1)
              in Inr (fig2\<lparr>shapes :=
                        [(- \<bar>a\<bar> * 1.1, \<bar>a\<bar> * 1.1, 0, 0), (0, 0, - \<bar>b\<bar> * 1.1, \<bar>b\<bar> * 1.1)]\<rparr>))))"

section \<open>Auxiliary facts\<close>

subsection \<open>Results, division and square roots\<close>

lemma res_bind_Inr [simp]: "res_bind (Inr v) f = f v"
  by (simp add: res_bind_def)

lemma res_bind_Inl [simp]: "res_bind (Inl e) f = Inl e"
  by (simp add: res_bind_def)

lemma py_div_nonzero: "y \<noteq> 0 \<Longrightarrow> py_div x y = Inr (x / y)"
  by (simp add: py_div_def)

lemma np_sqrt_nonneg: "0 \<le> x \<Longrightarrow> np_sqrt x = Inr (sqrt x)"
  by (simp add: np_sqrt_def)

subsection \<open>Totality of the property functions\<close>




subsection \<open>Evenly spaced samples\<close>

lemma length_np_linspace: "length (np_linspace lo hi n) = n"
  by (simp add: np_linspace_def Let_def)

lemma nth_np_linspace:
  "i < n \<Longrightarrow> 2 \<le> n \<Longrightarrow> np_linspace lo hi n ! i = lo + real i * ((hi - lo) / real (n - 1))"
  by (simp add: np_linspace_def Let_def)

lemma np_linspace_single: "np_linspace lo hi 1 = [lo]"
  by (simp add: np_linspace_def Let_def)

lemma np_linspace_first: "1 \<le> n \<Longrightarrow> np_linspace lo hi n ! 0 = lo"
  by (simp add: np_linspace_def Let_def)

lemma np_linspace_last: "2 \<le> n \<Longrightarrow> np_linspace lo hi n ! (n - 1) = hi"
  by (simp add: nth_np_linspace)

lemma np_linspace_strict:
  assumes "lo < hi"
  shows "sorted_wrt (<) (np_linspace lo hi n)"
proof (cases "2 \<le> n")
  case True
  then have step: "0 < (hi - lo) / real (n - 1)" using assms by simp
  show ?thesis
    unfolding sorted_wrt_iff_nth_less length_np_linspace
  proof (intro allI impI)
    fix i j assume ij: "i < j" "j < n"
    then have "real i < real j" by simp
    then have "real i * ((hi - lo) / real (n - 1)) < real j * ((hi - lo) / real (n - 1))"
      using step by (rule mult_strict_right_mono)
    then show "np_linspace lo hi n ! i < np_linspace lo hi n ! j"
      using ij True by (simp add: nth_np_linspace)
  qed
next
  case False
  then have "n = 0 \<or> n = 1" by arith
  then show ?thesis by (auto simp: np_linspace_def)
qed

lemma np_linspace_bounds:
  assumes "lo < hi" "x \<in> set (np_linspace lo hi n)"
  shows "lo \<le> x \<and> x \<le> hi"
proof -
  from assms(2) obtain i where i: "i < n" and x: "x = np_linspace lo hi n ! i"
    by (auto simp: in_set_conv_nth length_np_linspace)
  show ?thesis
  proof (cases "2 \<le> n")
    case True
    have d: "0 < hi - lo" using assms by simp
    have n1: "0 < real (n - 1)" using True by simp
    have "real i \<le> real (n - 1)" using i by simp
    then have "real i * (hi - lo) \<le> real (n - 1) * (hi - lo)"
      using d by (simp add: mult_right_mono)
    then have "real i * (hi - lo) / real (n - 1) \<le> hi - lo"
      using n1 by (simp add: pos_divide_le_eq mult.commute)
    moreover have "0 \<le> real i * (hi - lo) / real (n - 1)" using d by simp
    ultimately show ?thesis using x i True by (simp add: nth_np_linspace)
  next
    case False
    then have "n = 1" using i by arith
    then have "x = lo" using x i by (simp add: np_linspace_first)
    then show ?thesis using assms by simp
  qed
qed

subsection \<open>Animation frames\<close>

lemma length_phase_sweep: "length phase_sweep = 60"
  by (simp add: phase_sweep_def length_np_linspace)

lemma nth_phase_sweep: "i < 60 \<Longrightarrow> phase_sweep ! i = real i * (2 * pi / 59)"
  by (simp add: phase_sweep_def nth_np_linspace)

lemma length_anim_frames: "length (anim_frames (animated_plot A B C func x)) = 60"
  by (simp add: animated_plot_def Let_def length_phase_sweep)

lemma nth_anim_frames:
  "i < 60 \<Longrightarrow>
   anim_frames (animated_plot A B C func x) ! i =
     map (\<lambda>xj. A * (if func = ''sin'' then sin else cos) (B * xj + C + phase_sweep ! i)) x"
  by (simp add: animated_plot_def Let_def length_phase_sweep)

lemma animated_frames_agree:
  assumes "B \<noteq> 0" and "func = ''sin'' \<or> func = ''cos''" and "i < 60"
  shows "compute_trig A B (C + phase_sweep ! i) func x =
    Inr (anim_frames (animated_plot A B C func x) ! i)"
  using assms
  by (auto simp: nth_anim_frames compute_trig_def Let_def comp_def add.assoc)

subsection \<open>Roots of an all-zero sequence\<close>

lemma np_roots_all_zero:
  assumes "\<forall>c \<in> set p. c = 0"
  shows "np_roots eigvals p = []"
proof -
  have d: "dropWhile (\<lambda>c. c = 0) p = []" using assms by (simp add: dropWhile_eq_Nil_conv)
  show ?thesis unfolding np_roots_def Let_def d by simp
qed

subsection \<open>The range of floats and powers\<close>

lemma float_max_lower: "10 ^ 300 \<le> float_max"
  by (simp add: float_max_def)

lemma float_max_upper: "float_max < 10 ^ 309"
  by (simp add: float_max_def)

lemma float_max_pos: "1 \<le> float_max"
  using float_max_lower by (rule order_trans [rotated]) simp

lemma py_pow_in_range: "\<bar>x ^ n\<bar> \<le> float_max \<Longrightarrow> py_pow x n = Inr (x ^ n)"
  by (simp add: py_pow_def)


lemma isl_py_pow2: "isl (py_pow x 2) \<longleftrightarrow> float_max < x\<^sup>2"
  by (simp add: py_pow_def)

lemma square_in_range:
  assumes "\<bar>x\<bar> \<le> 10 ^ 150"
  shows "x\<^sup>2 \<le> float_max"
proof -
  have "x\<^sup>2 = \<bar>x\<bar>\<^sup>2" by simp
  also have "\<dots> \<le> (10 ^ 150)\<^sup>2" using assms by (intro power_mono) simp_all
  also have "\<dots> = (10 :: real) ^ 300" by (simp add: power_mult [symmetric])
  finally show ?thesis using float_max_lower by (rule order_trans)
qed

lemma huge_square: "float_max < ((10 :: real) ^ 200)\<^sup>2"
proof -
  have "float_max < (10 :: real) ^ 309" by (rule float_max_upper)
  also have "\<dots> \<le> (10 ^ 200)\<^sup>2" by (simp add: power_mult [symmetric])
  finally show ?thesis .
qed

subsection \<open>When the quadratic functions raise\<close>

lemma quadratic_discriminant_in_range:
  "b\<^sup>2 \<le> float_max \<Longrightarrow> quadratic_discriminant a b c = Inr (b\<^sup>2 - 4 * a * c)"
  by (simp add: quadratic_discriminant_def py_pow_in_range)





lemma sqrt_micro: "sqrt (1 / 10 ^ 12) = 1 / 10 ^ 6"
proof (rule real_sqrt_unique)
  show "(1 / 10 ^ 6 :: real)\<^sup>2 = 1 / 10 ^ 12" by (simp add: power2_eq_square)
  show "0 \<le> (1 / 10 ^ 6 :: real)" by simp
qed

subsection \<open>The ellipse bundle\<close>

lemma ratio_le_one:
  assumes "\<not> \<bar>a\<bar> < 1 / 10 ^ 9" "\<not> \<bar>b\<bar> < 1 / 10 ^ 9"
  shows "(min \<bar>a\<bar> \<bar>b\<bar> / max \<bar>a\<bar> \<bar>b\<bar>)\<^sup>2 \<le> (1 :: real)"
proof -
  have pos: "0 < max \<bar>a\<bar> \<bar>b\<bar>" using assms by (auto simp: max_def)
  have "0 \<le> min \<bar>a\<bar> \<bar>b\<bar> / max \<bar>a\<bar> \<bar>b\<bar>" by (simp add: min_def max_def)
  moreover have "min \<bar>a\<bar> \<bar>b\<bar> / max \<bar>a\<bar> \<bar>b\<bar> \<le> 1"
    using pos by (simp add: min_def max_def)
  ultimately show ?thesis by (simp add: power_le_one)
qed

lemma ratio_pow:
  assumes "\<not> \<bar>a\<bar> < 1 / 10 ^ 9" "\<not> \<bar>b\<bar> < 1 / 10 ^ 9"
  shows "py_pow (min \<bar>a\<bar> \<bar>b\<bar> / max \<bar>a\<bar> \<bar>b\<bar>) 2 = Inr ((min \<bar>a\<bar> \<bar>b\<bar> / max \<bar>a\<bar> \<bar>b\<bar>)\<^sup>2)"
proof (rule py_pow_in_range)
  have "\<bar>(min \<bar>a\<bar> \<bar>b\<bar> / max \<bar>a\<bar> \<bar>b\<bar>)\<^sup>2\<bar> = (min \<bar>a\<bar> \<bar>b\<bar> / max \<bar>a\<bar> \<bar>b\<bar>)\<^sup>2" by simp
  also have "\<dots> \<le> 1" using assms by (rule ratio_le_one)
  also have "\<dots> \<le> float_max" by (rule float_max_pos)
  finally show "\<bar>(min \<bar>a\<bar> \<bar>b\<bar> / max \<bar>a\<bar> \<bar>b\<bar>)\<^sup>2\<bar> \<le> float_max" .
qed

lemma ellipse_eccentricity_step:
  assumes "\<not> \<bar>a\<bar> < 1 / 10 ^ 9" "\<not> \<bar>b\<bar> < 1 / 10 ^ 9"
  shows "(if max \<bar>a\<bar> \<bar>b\<bar> > 0
          then res_bind (py_div (min \<bar>a\<bar> \<bar>b\<bar>) (max \<bar>a\<bar> \<bar>b\<bar>)) (\<lambda>q.
               res_bind (py_pow q 2) (\<lambda>q2. np_sqrt (1 - q2)))
          else Inr 0) = Inr (sqrt (1 - (min \<bar>a\<bar> \<bar>b\<bar> / max \<bar>a\<bar> \<bar>b\<bar>)\<^sup>2))"
proof -
  have pos: "0 < max \<bar>a\<bar> \<bar>b\<bar>" using assms by (auto simp: max_def)
  then have nz: "max \<bar>a\<bar> \<bar>b\<bar> \<noteq> 0" by simp
  have e: "np_sqrt (1 - (min \<bar>a\<bar> \<bar>b\<bar> / max \<bar>a\<bar> \<bar>b\<bar>)\<^sup>2)
      = Inr (sqrt (1 - (min \<bar>a\<bar> \<bar>b\<bar> / max \<bar>a\<bar> \<bar>b\<bar>)\<^sup>2))"
    using ratio_le_one [OF assms] by (intro np_sqrt_nonneg) simp
  show ?thesis
    using pos by (simp only: if_True py_div_nonzero [OF nz] res_bind_Inr ratio_pow [OF assms] e)
qed

lemma ellipse_properties_geometry:
  assumes "\<not> \<bar>a\<bar> < 1 / 10 ^ 9" "\<not> \<bar>b\<bar> < 1 / 10 ^ 9"
    and "a\<^sup>2 \<le> float_max" "b\<^sup>2 \<le> float_max"
  shows "ellipse_properties a b =
    Inr (Ellipse_geometry
          \<lparr>semi_major = max \<bar>a\<bar> \<bar>b\<bar>, semi_minor = min \<bar>a\<bar> \<bar>b\<bar>, area = pi * \<bar>a\<bar> * \<bar>b\<bar>,
           eccentricity = sqrt (1 - (min \<bar>a\<bar> \<bar>b\<bar> / max \<bar>a\<bar> \<bar>b\<bar>)\<^sup>2),
           focal_distance = sqrt (max (\<bar>a\<bar>\<^sup>2 - \<bar>b\<bar>\<^sup>2) 0),
           major_axis_length = 2 * max \<bar>a\<bar> \<bar>b\<bar>, minor_axis_length = 2 * min \<bar>a\<bar> \<bar>b\<bar>,
           major_axis_along = (if \<bar>a\<bar> \<ge> \<bar>b\<bar> then ''x-axis'' else ''y-axis'')\<rparr>)"
proof -
  have pa: "py_pow \<bar>a\<bar> 2 = Inr (\<bar>a\<bar>\<^sup>2)" using assms(3) by (intro py_pow_in_range) simp
  have pb: "py_pow \<bar>b\<bar> 2 = Inr (\<bar>b\<bar>\<^sup>2)" using assms(4) by (intro py_pow_in_range) simp
  have f: "np_sqrt (max (\<bar>a\<bar>\<^sup>2 - \<bar>b\<bar>\<^sup>2) 0) = Inr (sqrt (max (\<bar>a\<bar>\<^sup>2 - \<bar>b\<bar>\<^sup>2) 0))"
    by (intro np_sqrt_nonneg) simp
  show ?thesis
    unfolding ellipse_properties_def Let_def
      ellipse_eccentricity_step [OF assms(1,2)] pa pb f res_bind_Inr
    using assms(1,2) by (simp only: if_False simp_thms)
qed

lemma ellipse_properties_overflow:
  assumes "\<not> \<bar>a\<bar> < 1 / 10 ^ 9" "\<not> \<bar>b\<bar> < 1 / 10 ^ 9"
    and "float_max < a\<^sup>2 \<or> float_max < b\<^sup>2"
  shows "ellipse_properties a b = Inl OverflowError"
proof -
  have step: "res_bind (py_pow \<bar>a\<bar> 2) (\<lambda>a2. res_bind (py_pow \<bar>b\<bar> 2) (\<lambda>b2. k a2 b2))
      = Inl OverflowError" for k :: "real \<Rightarrow> real \<Rightarrow> error + ellipse_props"
  proof (cases "float_max < a\<^sup>2")
    case True
    then show ?thesis by (simp add: py_pow_def)
  next
    case False
    with assms(3) have "float_max < b\<^sup>2" by simp
    with False show ?thesis by (simp add: py_pow_def)
  qed
  show ?thesis
    unfolding ellipse_properties_def Let_def
      ellipse_eccentricity_step [OF assms(1,2)] res_bind_Inr step
    using assms(1,2) by (simp only: if_False simp_thms)
qed


lemma eccentricity_pos:
  assumes "\<not> \<bar>a\<bar> < 1 / 10 ^ 9" and "\<bar>a\<bar> < \<bar>b\<bar>"
  shows "0 < sqrt (1 - (min \<bar>a\<bar> \<bar>b\<bar> / max \<bar>a\<bar> \<bar>b\<bar>)\<^sup>2)"
proof -
  have b: "0 < \<bar>b\<bar>" using assms by linarith
  have mn: "min \<bar>a\<bar> \<bar>b\<bar> = \<bar>a\<bar>" and mx: "max \<bar>a\<bar> \<bar>b\<bar> = \<bar>b\<bar>"
    using assms by (simp_all add: min_def max_def)
  have "0 \<le> \<bar>a\<bar> / \<bar>b\<bar>" by simp
  moreover have "\<bar>a\<bar> / \<bar>b\<bar> < 1" using assms b by simp
  ultimately have "(\<bar>a\<bar> / \<bar>b\<bar>)\<^sup>2 < 1"
    by (simp add: power_less_one_iff abs_square_less_1)
  then show ?thesis by (simp add: mn mx)
qed

lemma focal_distance_zero:
  assumes "\<bar>a\<bar> < \<bar>b\<bar>"
  shows "sqrt (max (\<bar>a\<bar>\<^sup>2 - \<bar>b\<bar>\<^sup>2) 0) = 0"
proof -
  have "\<bar>a\<bar>\<^sup>2 \<le> \<bar>b\<bar>\<^sup>2" using assms by (intro power_mono) simp_all
  then have "max (\<bar>a\<bar>\<^sup>2 - \<bar>b\<bar>\<^sup>2) 0 = 0" by (simp add: max_def)
  then show ?thesis by (simp only: real_sqrt_zero)
qed

lemma sqrt_16: "sqrt 16 = 4"
  by (rule real_sqrt_unique) simp_all

lemma sqrt_16_25: "sqrt (16 / 25) = 4 / 5"
  by (rule real_sqrt_unique) (simp_all add: power2_eq_square)

section \<open>The derivative of a coefficient sequence\<close>

text \<open>
  Claim C8. For a coefficient sequence of length \<open>n \<ge> 2\<close> (highest degree first)
  \<open>polynomial_derivative\<close> returns a sequence of length \<open>n - 1\<close> whose entry at index
  \<open>i\<close> is \<open>coeffs[i] * (n - 1 - i)\<close>; for a sequence of length at most one it
  returns \<open>[0.0]\<close>; and applied twice to \<open>[1, 0, 0, 0]\<close> it yields \<open>[6, 0]\<close>.
\<close>

theorem polynomial_derivative_spec:
  "(2 \<le> length coeffs \<longrightarrow>
      length (polynomial_derivative coeffs) = length coeffs - 1 \<and>
      (\<forall>i < length coeffs - 1.
         polynomial_derivative coeffs ! i = coeffs ! i * real (length coeffs - 1 - i))) \<and>
   (length coeffs \<le> 1 \<longrightarrow> polynomial_derivative coeffs = [0]) \<and>
   polynomial_derivative (polynomial_derivative [1, 0, 0, 0]) = [6, 0]"
proof (intro conjI impI allI)
  assume "2 \<le> length coeffs"
  then show "length (polynomial_derivative coeffs) = length coeffs - 1"
    by (simp add: polynomial_derivative_def Let_def)
next
  fix i
  assume "2 \<le> length coeffs" and "i < length coeffs - 1"
  then show "polynomial_derivative coeffs ! i = coeffs ! i * real (length coeffs - 1 - i)"
    by (simp add: polynomial_derivative_def Let_def)
next
  assume "length coeffs \<le> 1"
  then show "polynomial_derivative coeffs = [0]"
    by (simp add: polynomial_derivative_def Let_def)
next
  have "polynomial_derivative [1, 0, 0, 0] = [3, 0, 0]"
    by (simp add: polynomial_derivative_def Let_def upt_rec)
  moreover have "polynomial_derivative [3, 0, 0] = [6, 0]"
    by (simp add: polynomial_derivative_def Let_def upt_rec)
  ultimately show "polynomial_derivative (polynomial_derivative [1, 0, 0, 0]) = [6, 0]"
    by simp
qed

theorem polynomial_derivative_spec_witness:
  "2 \<le> length [3, 2, 1 :: real] \<and>
   length (polynomial_derivative [3, 2, 1]) = 2 \<and>
   polynomial_derivative [3, 2, 1] ! 0 = 6 \<and>
   polynomial_derivative [3, 2, 1] ! 1 = 2 \<and>
   length [7 :: real] \<le> 1 \<and>
   polynomial_derivative [7] = [0]"
  using polynomial_derivative_spec [of "[3, 2, 1]"] polynomial_derivative_spec [of "[7]"]
  by simp

section \<open>The exception path of the trigonometric evaluation\<close>

text \<open>
  Claim C3, as stated, at \<open>B = 0\<close> with the unrecognized tag \<open>tan\<close>: the claim expects
  an exception for every tag other than \<open>sin\<close> and \<open>cos\<close>, but the branch for \<open>B = 0\<close>
  returns the zero curve before the tag is looked at.
\<close>

theorem compute_trig_unknown_tag_counterexample:
  "compute_trig 1 0 0 ''tan'' [1] = Inr [0] \<and>
   \<not> (isl (compute_trig 1 0 0 ''tan'' [1]) \<longleftrightarrow> ''tan'' \<noteq> ''sin'' \<and> ''tan'' \<noteq> ''cos'')"
  by (simp add: compute_trig_def)

text \<open>
  Claim C3, amended. For all real \<open>A\<close>, \<open>B\<close>, \<open>C\<close> and every sample array \<open>x\<close>,
  \<open>compute_trig\<close> raises an exception if and only if \<open>B \<noteq> 0\<close> and the tag is neither
  \<open>sin\<close> nor \<open>cos\<close>; the exception is then the \<open>ValueError\<close> for the unknown tag. For
  the two valid tags it never raises, and for \<open>B = 0\<close> it returns the zero curve
  whatever the tag.
\<close>

theorem compute_trig_raises_iff:
  "(isl (compute_trig A B C func x) \<longleftrightarrow> B \<noteq> 0 \<and> func \<noteq> ''sin'' \<and> func \<noteq> ''cos'') \<and>
   (B \<noteq> 0 \<and> func \<noteq> ''sin'' \<and> func \<noteq> ''cos'' \<longrightarrow>
      compute_trig A B C func x = Inl (ValueError (''Unknown trig function: '' @ func))) \<and>
   (B = 0 \<longrightarrow> compute_trig A B C func x = Inr (replicate (length x) 0)) \<and>
   (B \<noteq> 0 \<and> func = ''sin'' \<longrightarrow>
      compute_trig A B C func x = Inr (map (\<lambda>xj. A * sin (B * xj + C)) x)) \<and>
   (B \<noteq> 0 \<and> func = ''cos'' \<longrightarrow>
      compute_trig A B C func x = Inr (map (\<lambda>xj. A * cos (B * xj + C)) x))"
  by (simp add: compute_trig_def Let_def comp_def)

theorem compute_trig_raises_iff_witness:
  "isl (compute_trig 2 1 0 ''tan'' [0]) \<and>
   compute_trig 2 1 0 ''tan'' [0] = Inl (ValueError ''Unknown trig function: tan'') \<and>
   compute_trig 2 0 0 ''tan'' [0] = Inr [0] \<and>
   compute_trig 2 1 0 ''sin'' [0] = Inr [0] \<and>
   compute_trig 2 1 0 ''cos'' [0] = Inr [2]"
  using compute_trig_raises_iff [of 2 1 0 "''tan''" "[0]"]
    compute_trig_raises_iff [of 2 0 0 "''tan''" "[0]"]
    compute_trig_raises_iff [of 2 1 0 "''sin''" "[0]"]
    compute_trig_raises_iff [of 2 1 0 "''cos''" "[0]"]
  by simp

section \<open>The degenerate trigonometric curve and its properties\<close>

text \<open>
  Claim C4. If \<open>B = 0\<close> exactly, \<open>compute_trig\<close> returns a sequence of the length of
  \<open>x\<close> that is zero everywhere (and so differs from the constant \<open>A\<close> when \<open>A \<noteq> 0\<close>),
  while \<open>trig_properties\<close> reports amplitude \<open>|A|\<close>, an infinite period, frequency 0,
  phase shift 0 and angular frequency 0; the same bundle is reported whenever
  \<open>|B| < 1e-12\<close>.
\<close>

theorem trig_degenerate:
  "compute_trig A 0 C func x = Inr (replicate (length x) 0) \<and>
   length (replicate (length x) (0 :: real)) = length x \<and>
   (A \<noteq> 0 \<and> x \<noteq> [] \<longrightarrow> compute_trig A 0 C func x \<noteq> Inr (replicate (length x) A)) \<and>
   trig_properties A 0 C =
     Inr \<lparr>amplitude = \<bar>A\<bar>, angular_freq = 0, period = Infinite,
          frequency = 0, phase_shift = 0\<rparr> \<and>
   (\<bar>B\<bar> < 1 / 10 ^ 12 \<longrightarrow>
      trig_properties A B C =
        Inr \<lparr>amplitude = \<bar>A\<bar>, angular_freq = 0, period = Infinite,
             frequency = 0, phase_shift = 0\<rparr>)"
proof (intro conjI impI)
  show z: "compute_trig A 0 C func x = Inr (replicate (length x) 0)"
    by (simp add: compute_trig_def)
  show "length (replicate (length x) (0 :: real)) = length x" by simp
  show "trig_properties A 0 C =
     Inr \<lparr>amplitude = \<bar>A\<bar>, angular_freq = 0, period = Infinite,
          frequency = 0, phase_shift = 0\<rparr>"
    by (simp add: trig_properties_def)
  {
    assume "A \<noteq> 0 \<and> x \<noteq> []"
    then obtain y ys where "x = y # ys" and "A \<noteq> 0" by (cases x) auto
    then show "compute_trig A 0 C func x \<noteq> Inr (replicate (length x) A)"
      by (simp add: compute_trig_def)
  }
  {
    assume "\<bar>B\<bar> < 1 / 10 ^ 12"
    then show "trig_properties A B C =
        Inr \<lparr>amplitude = \<bar>A\<bar>, angular_freq = 0, period = Infinite,
             frequency = 0, phase_shift = 0\<rparr>"
      by (simp add: trig_properties_def)
  }
qed

theorem trig_degenerate_witness:
  "compute_trig 2 0 1 ''sin'' [1, 2, 3] = Inr [0, 0, 0] \<and>
   (2 :: real) \<noteq> 0 \<and> [1, 2, 3 :: real] \<noteq> [] \<and>
   compute_trig 2 0 1 ''sin'' [1, 2, 3] \<noteq> Inr [2, 2, 2] \<and>
   \<bar>1 / 10 ^ 13 :: real\<bar> < 1 / 10 ^ 12 \<and>
   trig_properties 2 (1 / 10 ^ 13) 1 =
     Inr \<lparr>amplitude = 2, angular_freq = 0, period = Infinite,
          frequency = 0, phase_shift = 0\<rparr>"
  using trig_degenerate [of 2 1 "''sin''" "[1, 2, 3]" "1 / 10 ^ 13"]
  by (simp add: numeral_3_eq_3)

section \<open>Sampling a guarded domain\<close>

text \<open>
  Claim C7. For every \<open>x_min\<close>, \<open>x_max\<close> and count \<open>n\<close>, the sampling function returns
  an ordered sequence of exactly \<open>n\<close> reals, evenly spaced over \<open>[x_min, hi]\<close>, where
  \<open>hi\<close> is \<open>x_max\<close>, or \<open>x_min + 1e-6\<close> whenever \<open>x_min \<ge> x_max\<close>; it never fails. In
  particular \<open>sample(5, 5, n)\<close> has \<open>n\<close> points, starts at 5 and spans the range of
  width \<open>1e-6\<close>.
\<close>

theorem safe_linspace_spec:
  "(let hi = (if x_min \<ge> x_max then x_min + 1 / 10 ^ 6 else x_max);
        xs = safe_linspace x_min x_max n
    in x_min < hi \<and>
       length xs = n \<and>
       sorted_wrt (<) xs \<and>
       (\<forall>x \<in> set xs. x_min \<le> x \<and> x \<le> hi) \<and>
       (2 \<le> n \<longrightarrow> (\<forall>i < n. xs ! i = x_min + real i * ((hi - x_min) / real (n - 1)))) \<and>
       (1 \<le> n \<longrightarrow> xs ! 0 = x_min) \<and>
       (2 \<le> n \<longrightarrow> xs ! (n - 1) = hi)) \<and>
   length (safe_linspace 5 5 n) = n \<and>
   (1 \<le> n \<longrightarrow> safe_linspace 5 5 n ! 0 = 5) \<and>
   (2 \<le> n \<longrightarrow> safe_linspace 5 5 n ! (n - 1) = 5 + 1 / 10 ^ 6)"
proof -
  define hi where "hi = (if x_min \<ge> x_max then x_min + 1 / 10 ^ 6 else x_max)"
  have lt: "x_min < hi" by (simp add: hi_def)
  have eq: "safe_linspace x_min x_max n = np_linspace x_min hi n"
    by (simp add: safe_linspace_def hi_def)
  have five: "safe_linspace 5 5 n = np_linspace 5 (5 + 1 / 10 ^ 6) n"
    by (simp add: safe_linspace_def)
  have main: "x_min < hi \<and>
       length (np_linspace x_min hi n) = n \<and>
       sorted_wrt (<) (np_linspace x_min hi n) \<and>
       (\<forall>x \<in> set (np_linspace x_min hi n). x_min \<le> x \<and> x \<le> hi) \<and>
       (2 \<le> n \<longrightarrow> (\<forall>i < n. np_linspace x_min hi n ! i
           = x_min + real i * ((hi - x_min) / real (n - 1)))) \<and>
       (1 \<le> n \<longrightarrow> np_linspace x_min hi n ! 0 = x_min) \<and>
       (2 \<le> n \<longrightarrow> np_linspace x_min hi n ! (n - 1) = hi)"
    using lt np_linspace_strict [OF lt] np_linspace_bounds [OF lt]
    by (simp add: length_np_linspace nth_np_linspace np_linspace_first np_linspace_last)
  have len5: "length (safe_linspace 5 5 n) = n"
    unfolding five by (rule length_np_linspace)
  have first5: "1 \<le> n \<longrightarrow> safe_linspace 5 5 n ! 0 = 5"
    unfolding five by (simp add: np_linspace_first)
  have last5: "2 \<le> n \<longrightarrow> safe_linspace 5 5 n ! (n - 1) = 5 + 1 / 10 ^ 6"
    unfolding five using np_linspace_last [of n 5 "5 + 1 / 10 ^ 6"] by blast
  from main have "let hi = (if x_min \<ge> x_max then x_min + 1 / 10 ^ 6 else x_max);
        xs = safe_linspace x_min x_max n
    in x_min < hi \<and>
       length xs = n \<and>
       sorted_wrt (<) xs \<and>
       (\<forall>x \<in> set xs. x_min \<le> x \<and> x \<le> hi) \<and>
       (2 \<le> n \<longrightarrow> (\<forall>i < n. xs ! i = x_min + real i * ((hi - x_min) / real (n - 1)))) \<and>
       (1 \<le> n \<longrightarrow> xs ! 0 = x_min) \<and>
       (2 \<le> n \<longrightarrow> xs ! (n - 1) = hi)"
    unfolding Let_def eq hi_def [symmetric] .
  with len5 first5 last5 show ?thesis by blast
qed

theorem safe_linspace_spec_witness:
  "safe_linspace 0 1 3 = [0, 1 / 2, 1] \<and>
   safe_linspace 5 5 3 = [5, 5 + 1 / (2 * 10 ^ 6), 5 + 1 / 10 ^ 6] \<and>
   safe_linspace 7 2 1 = [7] \<and>
   length (safe_linspace 5 5 3) = 3 \<and>
   sorted_wrt (<) (safe_linspace 5 5 3) \<and>
   safe_linspace 5 5 3 ! 0 = 5 \<and>
   safe_linspace 5 5 3 ! (3 - 1) = 5 + 1 / 10 ^ 6"
proof -
  have a: "safe_linspace 0 1 3 = [0, 1 / 2, 1]"
    by (simp add: safe_linspace_def np_linspace_def Let_def upt_rec)
  have b: "safe_linspace 5 5 3 = [5, 5 + 1 / (2 * 10 ^ 6), 5 + 1 / 10 ^ 6]"
    by (simp add: safe_linspace_def np_linspace_def Let_def upt_rec)
  have c: "safe_linspace 7 2 1 = [7]"
    by (simp add: safe_linspace_def np_linspace_def Let_def upt_rec)
  show ?thesis
    using safe_linspace_spec [of 5 5 3] a b c by (simp add: Let_def)
qed

section \<open>The frames of the phase animation\<close>

text \<open>
  Claim C5 says that every frame of the animation holds the values of \<open>compute_trig\<close>
  with the phase \<open>C + \<phi>\<^sub>i\<close>. The source does not call \<open>compute_trig\<close> for the frames; it
  repeats the formula without the guard for \<open>B = 0\<close>. The two agree for \<open>B \<noteq> 0\<close> and a
  valid tag (\<open>animated_frames_agree\<close>). At \<open>(A, B, C) = (1, 0, 0)\<close>, tag \<open>cos\<close> and the
  single sample point \<open>0\<close>, the first phase offset is \<open>0\<close>, the first frame is \<open>[1]\<close>
  and \<open>compute_trig\<close> returns \<open>[0]\<close>.
\<close>

theorem animated_plot_zero_frequency_frame:
  "phase_sweep ! 0 = 0 \<and>
   anim_frames (animated_plot 1 0 0 ''cos'' [0]) ! 0 = [1] \<and>
   compute_trig 1 0 (0 + phase_sweep ! 0) ''cos'' [0] = Inr [0]"
proof -
  have p: "phase_sweep ! 0 = 0" by (simp add: nth_phase_sweep)
  have "anim_frames (animated_plot 1 0 0 ''cos'' [0]) ! 0 = [1]"
    by (simp add: nth_anim_frames p)
  moreover have "compute_trig 1 0 (0 + phase_sweep ! 0) ''cos'' [0] = Inr [0]"
    by (simp add: compute_trig_def)
  ultimately show ?thesis using p by simp
qed

section \<open>Real roots of a coefficient sequence\<close>

text \<open>
  Claim C6. For every coefficient sequence (and every eigenvalue solver), the result of
  \<open>find_real_roots\<close> is sorted in ascending order and consists, with multiplicity, of
  the real parts of exactly those roots returned by \<open>np.roots\<close> whose imaginary part has
  magnitude strictly below \<open>1e-8\<close>; for an all-zero coefficient sequence it is the empty
  list. The function is total: it has no failing step.
\<close>

theorem find_real_roots_spec:
  "sorted (find_real_roots eigvals coeffs) \<and>
   mset (find_real_roots eigvals coeffs) =
     image_mset Re (filter_mset (\<lambda>r. \<bar>Im r\<bar> < 1 / 10 ^ 8) (mset (np_roots eigvals coeffs))) \<and>
   length (find_real_roots eigvals coeffs) =
     length (filter (\<lambda>r. \<bar>Im r\<bar> < 1 / 10 ^ 8) (np_roots eigvals coeffs)) \<and>
   ((\<forall>c \<in> set coeffs. c = 0) \<longrightarrow> find_real_roots eigvals coeffs = [])"
proof (intro conjI impI)
  show "sorted (find_real_roots eigvals coeffs)"
    by (simp add: find_real_roots_def Let_def)
  show "mset (find_real_roots eigvals coeffs) =
     image_mset Re (filter_mset (\<lambda>r. \<bar>Im r\<bar> < 1 / 10 ^ 8) (mset (np_roots eigvals coeffs)))"
    by (simp add: find_real_roots_def Let_def)
  show "length (find_real_roots eigvals coeffs) =
     length (filter (\<lambda>r. \<bar>Im r\<bar> < 1 / 10 ^ 8) (np_roots eigvals coeffs))"
    by (simp add: find_real_roots_def Let_def)
next
  assume "\<forall>c \<in> set coeffs. c = 0"
  then have "np_roots eigvals coeffs = []" by (rule np_roots_all_zero)
  then show "find_real_roots eigvals coeffs = []"
    by (simp add: find_real_roots_def)
qed

theorem find_real_roots_spec_witness:
  "set [0, 0, 0 :: real] = {0} \<and>
   find_real_roots (\<lambda>p. [1, - 1]) [0, 0, 0] = [] \<and>
   find_real_roots (\<lambda>p. [1, - 1]) [1, 0, - 1] = [- 1, 1] \<and>
   find_real_roots (\<lambda>p. [Complex 0 1, Complex 0 (- 1)]) [1, 0, 1] = [] \<and>
   find_real_roots (\<lambda>p. [Complex 2 (1 / 10 ^ 9), Complex 0 (1 / 10 ^ 8)]) [1, - 2, 0] = [0, 2] \<and>
   sorted (find_real_roots (\<lambda>p. [1, - 1]) [1, 0, - 1])"
proof -
  have a: "find_real_roots (\<lambda>p. [1, - 1]) [1, 0, - 1] = [- 1, 1]"
    by (simp add: find_real_roots_def np_roots_def Let_def)
  have b: "find_real_roots (\<lambda>p. [Complex 0 1, Complex 0 (- 1)]) [1, 0, 1] = []"
    by (simp add: find_real_roots_def np_roots_def Let_def)
  have c: "find_real_roots (\<lambda>p. [Complex 2 (1 / 10 ^ 9), Complex 0 (1 / 10 ^ 8)]) [1, - 2, 0] = [0, 2]"
    by (simp add: find_real_roots_def np_roots_def Let_def)
  show ?thesis
    using find_real_roots_spec [of "\<lambda>p. [1, - 1]" "[0, 0, 0]"]
      find_real_roots_spec [of "\<lambda>p. [1, - 1]" "[1, 0, - 1]"] a b c
    by simp
qed

section \<open>Classification of the roots of a quadratic\<close>

text \<open>
  Claim C1 gives \<open>quadratic_roots\<close> a tolerance band around zero: a discriminant with
  \<open>|D| \<le> 1e-10\<close> yields the single repeated root \<open>-b / (2a)\<close>, and only \<open>D > 1e-10\<close>
  yields two distinct roots; the caller \<^verbatim>\<open>render_quadratic\<close> classifies \<open>D\<close> by exactly
  these bands. The source tests \<open>D > 0\<close> first, so the positive half of the band is
  never reached. At \<open>(a, b, c) = (1, 0, -2.5e-13)\<close> the discriminant is \<open>1e-12\<close>, inside
  the band, and the function returns the two distinct roots \<open>-5e-7\<close> and \<open>5e-7\<close>
  instead of the repeated root \<open>0\<close>.
\<close>

theorem quadratic_roots_small_positive_discriminant:
  "\<not> \<bar>1 :: real\<bar> < 1 / 10 ^ 12 \<and>
   quadratic_discriminant 1 0 (- (25 / 10 ^ 14)) = Inr (1 / 10 ^ 12) \<and>
   \<bar>1 / 10 ^ 12 :: real\<bar> \<le> 1 / 10 ^ 10 \<and>
   quadratic_roots 1 0 (- (25 / 10 ^ 14)) =
     Inr (Two_distinct_real_roots (1 / 10 ^ 12), [- (5 / 10 ^ 7), 5 / 10 ^ 7]) \<and>
   quadratic_roots 1 0 (- (25 / 10 ^ 14)) \<noteq> Inr (One_repeated_real_root, [- 0 / (2 * 1)])"
proof -
  have z: "(0 :: real)\<^sup>2 \<le> float_max" using float_max_pos by simp
  have D: "quadratic_discriminant 1 0 (- (25 / 10 ^ 14)) = Inr (1 / 10 ^ 12)"
    unfolding quadratic_discriminant_in_range [OF z] by simp
  have a: "\<not> \<bar>1 :: real\<bar> < 1 / 10 ^ 12" by simp
  have pos: "(0 :: real) < 1 / 10 ^ 12" by simp
  have r1: "py_div (- 0 + 1 / 10 ^ 6) (2 * 1) = Inr (5 / 10 ^ 7)"
    by (simp add: py_div_def)
  have r2: "py_div (- 0 - 1 / 10 ^ 6) (2 * 1) = Inr (- (5 / 10 ^ 7))"
    by (simp add: py_div_def)
  have "quadratic_roots 1 0 (- (25 / 10 ^ 14)) =
     Inr (Two_distinct_real_roots (1 / 10 ^ 12), sort [5 / 10 ^ 7, - (5 / 10 ^ 7)])"
    unfolding quadratic_roots_def D res_bind_Inr if_not_P [OF a] if_P [OF pos]
      np_sqrt_nonneg [OF less_imp_le [OF pos]] sqrt_micro r1 r2
    by (rule refl)
  also have "sort [5 / 10 ^ 7, - (5 / 10 ^ 7) :: real] = [- (5 / 10 ^ 7), 5 / 10 ^ 7]"
    by simp
  finally have eq: "quadratic_roots 1 0 (- (25 / 10 ^ 14)) =
     Inr (Two_distinct_real_roots (1 / 10 ^ 12), [- (5 / 10 ^ 7), 5 / 10 ^ 7])" .
  have tol: "\<bar>1 / 10 ^ 12 :: real\<bar> \<le> 1 / 10 ^ 10" by simp
  from a D tol eq show ?thesis by simp
qed

section \<open>When an analyzer raises\<close>




section \<open>Geometry of the ellipse\<close>

text \<open>
  Claim C9, as stated for every real \<open>(a, b)\<close>, at \<open>(a, b) = (1e200, 1)\<close>: the input is
  not degenerate, and \<open>ellipse_properties\<close> raises \<open>OverflowError\<close> at \<open>abs(a) ** 2\<close>
  instead of returning the geometry bundle.
\<close>

theorem ellipse_properties_overflow_counterexample:
  "\<not> (\<bar>10 ^ 200 :: real\<bar> < 1 / 10 ^ 9 \<or> \<bar>1 :: real\<bar> < 1 / 10 ^ 9) \<and>
   ellipse_properties (10 ^ 200) 1 = Inl OverflowError"
proof -
  have a: "\<not> \<bar>10 ^ 200 :: real\<bar> < 1 / 10 ^ 9"
  proof -
    have "(1 / 10 ^ 9 :: real) \<le> 1" by simp
    also have "\<dots> \<le> 10 ^ 200" by simp
    finally show ?thesis by simp
  qed
  have b: "\<not> \<bar>1 :: real\<bar> < 1 / 10 ^ 9" by simp
  have "ellipse_properties (10 ^ 200) 1 = Inl OverflowError"
    using huge_square by (intro ellipse_properties_overflow [OF a b]) simp
  with a b show ?thesis by simp
qed

text \<open>
  Claim C9, amended. For all real \<open>(a, b)\<close>, \<open>ellipse_properties\<close> returns the error
  bundle, with no geometry, when \<open>|a| < 1e-9\<close> or \<open>|b| < 1e-9\<close>; otherwise, provided
  \<open>a\<^sup>2\<close> and \<open>b\<^sup>2\<close> do not exceed the largest float (as for all semi-axes of magnitude
  at most \<open>1e100\<close>, hence for every slider value), it returns the semi-major axis
  \<open>max(|a|, |b|)\<close>, the semi-minor axis \<open>min(|a|, |b|)\<close>, the area \<open>\<pi>|a||b|\<close>, the
  eccentricity \<open>sqrt(1 - (minor / major)\<^sup>2)\<close>, the focal distance
  \<open>sqrt(max(a\<^sup>2 - b\<^sup>2, 0))\<close>, the axis lengths (twice the semi-axes) and the coordinate
  axis of the major axis; when \<open>a\<^sup>2\<close> or \<open>b\<^sup>2\<close> exceeds the largest float it raises
  \<open>OverflowError\<close>. For \<open>(a, b) = (5, 3)\<close> the bundle is 5, 3, \<open>15\<pi>\<close>, 0.8, 4, with the
  major axis along x.
\<close>

theorem ellipse_properties_spec:
  "(\<bar>a\<bar> < 1 / 10 ^ 9 \<or> \<bar>b\<bar> < 1 / 10 ^ 9 \<longrightarrow>
      ellipse_properties a b = Inr (Ellipse_error ''Semi-axes must be non-zero'')) \<and>
   (\<not> (\<bar>a\<bar> < 1 / 10 ^ 9 \<or> \<bar>b\<bar> < 1 / 10 ^ 9) \<and> a\<^sup>2 \<le> float_max \<and> b\<^sup>2 \<le> float_max \<longrightarrow>
      ellipse_properties a b =
        Inr (Ellipse_geometry
          \<lparr>semi_major = max \<bar>a\<bar> \<bar>b\<bar>,
           semi_minor = min \<bar>a\<bar> \<bar>b\<bar>,
           area = pi * \<bar>a\<bar> * \<bar>b\<bar>,
           eccentricity = sqrt (1 - (min \<bar>a\<bar> \<bar>b\<bar> / max \<bar>a\<bar> \<bar>b\<bar>)\<^sup>2),
           focal_distance = sqrt (max (a\<^sup>2 - b\<^sup>2) 0),
           major_axis_length = 2 * max \<bar>a\<bar> \<bar>b\<bar>,
           minor_axis_length = 2 * min \<bar>a\<bar> \<bar>b\<bar>,
           major_axis_along = (if \<bar>a\<bar> \<ge> \<bar>b\<bar> then ''x-axis'' else ''y-axis'')\<rparr>)) \<and>
   (\<not> (\<bar>a\<bar> < 1 / 10 ^ 9 \<or> \<bar>b\<bar> < 1 / 10 ^ 9) \<and> (float_max < a\<^sup>2 \<or> float_max < b\<^sup>2) \<longrightarrow>
      ellipse_properties a b = Inl OverflowError) \<and>
   (\<bar>a\<bar> \<le> 10 ^ 100 \<and> \<bar>b\<bar> \<le> 10 ^ 100 \<longrightarrow> a\<^sup>2 \<le> float_max \<and> b\<^sup>2 \<le> float_max) \<and>
   ellipse_properties 5 3 =
     Inr (Ellipse_geometry
       \<lparr>semi_major = 5, semi_minor = 3, area = 15 * pi, eccentricity = 4 / 5,
        focal_distance = 4, major_axis_length = 10, minor_axis_length = 6,
        major_axis_along = ''x-axis''\<rparr>)"
proof (intro conjI impI)
  assume "\<bar>a\<bar> < 1 / 10 ^ 9 \<or> \<bar>b\<bar> < 1 / 10 ^ 9"
  then show "ellipse_properties a b = Inr (Ellipse_error ''Semi-axes must be non-zero'')"
    by (simp add: ellipse_properties_def)
next
  assume h: "\<not> (\<bar>a\<bar> < 1 / 10 ^ 9 \<or> \<bar>b\<bar> < 1 / 10 ^ 9) \<and> a\<^sup>2 \<le> float_max \<and> b\<^sup>2 \<le> float_max"
  then have "\<not> \<bar>a\<bar> < 1 / 10 ^ 9" and "\<not> \<bar>b\<bar> < 1 / 10 ^ 9"
    and "a\<^sup>2 \<le> float_max" and "b\<^sup>2 \<le> float_max" by simp_all
  then show "ellipse_properties a b =
        Inr (Ellipse_geometry
          \<lparr>semi_major = max \<bar>a\<bar> \<bar>b\<bar>,
           semi_minor = min \<bar>a\<bar> \<bar>b\<bar>,
           area = pi * \<bar>a\<bar> * \<bar>b\<bar>,
           eccentricity = sqrt (1 - (min \<bar>a\<bar> \<bar>b\<bar> / max \<bar>a\<bar> \<bar>b\<bar>)\<^sup>2),
           focal_distance = sqrt (max (a\<^sup>2 - b\<^sup>2) 0),
           major_axis_length = 2 * max \<bar>a\<bar> \<bar>b\<bar>,
           minor_axis_length = 2 * min \<bar>a\<bar> \<bar>b\<bar>,
           major_axis_along = (if \<bar>a\<bar> \<ge> \<bar>b\<bar> then ''x-axis'' else ''y-axis'')\<rparr>)"
    by (simp add: ellipse_properties_geometry)
next
  assume h: "\<not> (\<bar>a\<bar> < 1 / 10 ^ 9 \<or> \<bar>b\<bar> < 1 / 10 ^ 9) \<and> (float_max < a\<^sup>2 \<or> float_max < b\<^sup>2)"
  then have "\<not> \<bar>a\<bar> < 1 / 10 ^ 9" and "\<not> \<bar>b\<bar> < 1 / 10 ^ 9"
    and "float_max < a\<^sup>2 \<or> float_max < b\<^sup>2" by simp_all
  then show "ellipse_properties a b = Inl OverflowError"
    by (rule ellipse_properties_overflow)
next
  assume h: "\<bar>a\<bar> \<le> 10 ^ 100 \<and> \<bar>b\<bar> \<le> 10 ^ 100"
  then have "\<bar>a\<bar> \<le> 10 ^ 150" by (auto elim: order_trans)
  then show "a\<^sup>2 \<le> float_max" by (rule square_in_range)
  from h have "\<bar>b\<bar> \<le> 10 ^ 150" by (auto elim: order_trans)
  then show "b\<^sup>2 \<le> float_max" by (rule square_in_range)
next
  have n: "\<not> \<bar>5 :: real\<bar> < 1 / 10 ^ 9" "\<not> \<bar>3 :: real\<bar> < 1 / 10 ^ 9" by simp_all
  have r: "(5 :: real)\<^sup>2 \<le> float_max" "(3 :: real)\<^sup>2 \<le> float_max"
    by (rule square_in_range, simp)+
  have "ellipse_properties 5 3 =
    Inr (Ellipse_geometry
          \<lparr>semi_major = max \<bar>5\<bar> \<bar>3\<bar>, semi_minor = min \<bar>5\<bar> \<bar>3\<bar>, area = pi * \<bar>5\<bar> * \<bar>3\<bar>,
           eccentricity = sqrt (1 - (min \<bar>5\<bar> \<bar>3\<bar> / max \<bar>5\<bar> \<bar>3\<bar>)\<^sup>2),
           focal_distance = sqrt (max (\<bar>5\<bar>\<^sup>2 - \<bar>3\<bar>\<^sup>2) 0),
           major_axis_length = 2 * max \<bar>5\<bar> \<bar>3\<bar>, minor_axis_length = 2 * min \<bar>5\<bar> \<bar>3\<bar>,
           major_axis_along = (if \<bar>5 :: real\<bar> \<ge> \<bar>3\<bar> then ''x-axis'' else ''y-axis'')\<rparr>)"
    by (rule ellipse_properties_geometry [OF n r])
  moreover have "sqrt (1 - (min \<bar>5\<bar> \<bar>3\<bar> / max \<bar>5\<bar> \<bar>3\<bar>)\<^sup>2) = (4 / 5 :: real)"
  proof -
    have "1 - (min \<bar>5\<bar> \<bar>3\<bar> / max \<bar>5\<bar> \<bar>3\<bar>)\<^sup>2 = (16 / 25 :: real)"
      by (simp add: power2_eq_square)
    then show ?thesis by (simp only: sqrt_16_25)
  qed
  moreover have "sqrt (max (\<bar>5\<bar>\<^sup>2 - \<bar>3\<bar>\<^sup>2) 0) = (4 :: real)"
  proof -
    have "max (\<bar>5\<bar>\<^sup>2 - \<bar>3\<bar>\<^sup>2) 0 = (16 :: real)" by simp
    then show ?thesis by (simp only: sqrt_16)
  qed
  ultimately show "ellipse_properties 5 3 =
     Inr (Ellipse_geometry
       \<lparr>semi_major = 5, semi_minor = 3, area = 15 * pi, eccentricity = 4 / 5,
        focal_distance = 4, major_axis_length = 10, minor_axis_length = 6,
        major_axis_along = ''x-axis''\<rparr>)"
    by simp
qed

theorem ellipse_properties_spec_witness:
  "\<bar>0 :: real\<bar> < 1 / 10 ^ 9 \<and>
   ellipse_properties 0 3 = Inr (Ellipse_error ''Semi-axes must be non-zero'') \<and>
   \<not> (\<bar>4 :: real\<bar> < 1 / 10 ^ 9 \<or> \<bar>4 :: real\<bar> < 1 / 10 ^ 9) \<and>
   \<bar>4 :: real\<bar> \<le> 10 ^ 100 \<and> (4 :: real)\<^sup>2 \<le> float_max \<and>
   ellipse_properties 4 4 =
     Inr (Ellipse_geometry
       \<lparr>semi_major = 4, semi_minor = 4, area = 16 * pi, eccentricity = 0,
        focal_distance = 0, major_axis_length = 8, minor_axis_length = 8,
        major_axis_along = ''x-axis''\<rparr>) \<and>
   \<not> (\<bar>1 :: real\<bar> < 1 / 10 ^ 9 \<or> \<bar>10 ^ 155 :: real\<bar> < 1 / 10 ^ 9) \<and>
   float_max < ((10 :: real) ^ 155)\<^sup>2 \<and>
   ellipse_properties 1 (10 ^ 155) = Inl OverflowError"
proof -
  have big: "float_max < ((10 :: real) ^ 155)\<^sup>2"
  proof -
    have "float_max < (10 :: real) ^ 309" by (rule float_max_upper)
    also have "\<dots> \<le> (10 ^ 155)\<^sup>2" by (simp add: power_mult [symmetric])
    finally show ?thesis .
  qed
  have nd: "\<not> (\<bar>1 :: real\<bar> < 1 / 10 ^ 9 \<or> \<bar>10 ^ 155 :: real\<bar> < 1 / 10 ^ 9)"
  proof -
    have "(1 / 10 ^ 9 :: real) \<le> 1" by simp
    also have "\<dots> \<le> 10 ^ 155" by simp
    finally show ?thesis by simp
  qed
  have ok: "(4 :: real)\<^sup>2 \<le> float_max" by (rule square_in_range) simp
  have small: "\<bar>4 :: real\<bar> \<le> 10 ^ 100"
  proof -
    have "\<bar>4 :: real\<bar> \<le> 10 ^ 1" by simp
    also have "\<dots> \<le> (10 :: real) ^ 100" by (rule power_increasing) simp_all
    finally show ?thesis .
  qed
  have over: "ellipse_properties 1 (10 ^ 155) = Inl OverflowError"
    using ellipse_properties_spec [of 1 "10 ^ 155"] nd big by blast
  have deg: "ellipse_properties 0 3 = Inr (Ellipse_error ''Semi-axes must be non-zero'')"
    using ellipse_properties_spec [of 0 3] by simp
  have four: "ellipse_properties 4 4 =
     Inr (Ellipse_geometry
       \<lparr>semi_major = 4, semi_minor = 4, area = 16 * pi, eccentricity = 0,
        focal_distance = 0, major_axis_length = 8, minor_axis_length = 8,
        major_axis_along = ''x-axis''\<rparr>)"
    using ellipse_properties_spec [of 4 4] ok by simp
  from deg four over nd big ok small show ?thesis by simp
qed

section \<open>Foci of an ellipse with its major axis along y\<close>

text \<open>
  Claim C10, as stated for every non-degenerate \<open>(a, b)\<close> with \<open>|b| > |a|\<close>, at
  \<open>(a, b) = (1, 1e200)\<close>: \<open>ellipse_properties\<close> raises \<open>OverflowError\<close> at
  \<open>abs(b) ** 2\<close> and reports nothing, and \<open>plot_ellipse\<close> raises with it.
\<close>

theorem tall_ellipse_overflow_counterexample:
  "\<not> \<bar>1 :: real\<bar> < 1 / 10 ^ 9 \<and> \<not> \<bar>10 ^ 200 :: real\<bar> < 1 / 10 ^ 9 \<and>
   \<bar>1 :: real\<bar> < \<bar>10 ^ 200\<bar> \<and>
   ellipse_properties 1 (10 ^ 200) = Inl OverflowError \<and>
   plot_ellipse 1 (10 ^ 200) = Inl OverflowError"
proof -
  have a: "\<not> \<bar>1 :: real\<bar> < 1 / 10 ^ 9" by simp
  have one: "(1 :: real) < 10 ^ 200"
    by (rule one_less_power) simp_all
  have b: "\<not> \<bar>10 ^ 200 :: real\<bar> < 1 / 10 ^ 9"
  proof -
    have "(1 / 10 ^ 9 :: real) \<le> 1" by simp
    also have "\<dots> \<le> 10 ^ 200" using one by simp
    finally show ?thesis by simp
  qed
  have lt: "\<bar>1 :: real\<bar> < \<bar>10 ^ 200\<bar>" using one by simp
  have e: "ellipse_properties 1 (10 ^ 200) = Inl OverflowError"
    using huge_square by (intro ellipse_properties_overflow [OF a b]) simp
  have p: "plot_ellipse 1 (10 ^ 200) = Inl OverflowError"
    unfolding plot_ellipse_def e by (simp add: Let_def split: prod.split)
  from a b lt e p show ?thesis by blast
qed

text \<open>
  Claim C10, amended. For every non-degenerate \<open>(a, b)\<close> with \<open>|a| \<ge> 1e-9\<close>,
  \<open>|b| \<ge> 1e-9\<close>, \<open>|b| > |a|\<close> and \<open>b\<^sup>2\<close> at most the largest float (as for every slider
  value), \<open>ellipse_properties\<close> reports the major axis along the y-axis and a focal
  distance of 0 although the eccentricity is positive; the figure built by
  \<open>plot_ellipse\<close>, which adds focus markers only when the focal distance exceeds \<open>1e-6\<close>,
  therefore contains no focus marker. When \<open>b\<^sup>2\<close> exceeds the largest float, both
  functions raise \<open>OverflowError\<close> and no figure is built.
\<close>

theorem tall_ellipse_has_no_foci:
  "(\<not> \<bar>a\<bar> < 1 / 10 ^ 9 \<and> \<not> \<bar>b\<bar> < 1 / 10 ^ 9 \<and> \<bar>a\<bar> < \<bar>b\<bar> \<and> b\<^sup>2 \<le> float_max \<longrightarrow>
     (\<exists>g fig.
        ellipse_properties a b = Inr (Ellipse_geometry g) \<and>
        major_axis_along g = ''y-axis'' \<and>
        focal_distance g = 0 \<and>
        0 < eccentricity g \<and>
        plot_ellipse a b = Inr fig \<and>
        (\<forall>fx fy. Focus_marker fx fy \<notin> set (traces fig)))) \<and>
   (\<not> \<bar>a\<bar> < 1 / 10 ^ 9 \<and> \<not> \<bar>b\<bar> < 1 / 10 ^ 9 \<and> \<bar>a\<bar> < \<bar>b\<bar> \<and> float_max < b\<^sup>2 \<longrightarrow>
      ellipse_properties a b = Inl OverflowError \<and> plot_ellipse a b = Inl OverflowError)"
proof (intro conjI impI)
  assume h: "\<not> \<bar>a\<bar> < 1 / 10 ^ 9 \<and> \<not> \<bar>b\<bar> < 1 / 10 ^ 9 \<and> \<bar>a\<bar> < \<bar>b\<bar> \<and> b\<^sup>2 \<le> float_max"
  then have ha: "\<not> \<bar>a\<bar> < 1 / 10 ^ 9" and hb: "\<not> \<bar>b\<bar> < 1 / 10 ^ 9" and lt: "\<bar>a\<bar> < \<bar>b\<bar>"
    and rb: "b\<^sup>2 \<le> float_max"
    by simp_all
  have "a\<^sup>2 = \<bar>a\<bar>\<^sup>2" by simp
  also have "\<dots> \<le> \<bar>b\<bar>\<^sup>2" using lt by (intro power_mono) simp_all
  also have "\<dots> = b\<^sup>2" by simp
  finally have ra: "a\<^sup>2 \<le> float_max" using rb by (rule order_trans)
  define g where "g =
     \<lparr>semi_major = max \<bar>a\<bar> \<bar>b\<bar>, semi_minor = min \<bar>a\<bar> \<bar>b\<bar>, area = pi * \<bar>a\<bar> * \<bar>b\<bar>,
      eccentricity = sqrt (1 - (min \<bar>a\<bar> \<bar>b\<bar> / max \<bar>a\<bar> \<bar>b\<bar>)\<^sup>2),
      focal_distance = sqrt (max (\<bar>a\<bar>\<^sup>2 - \<bar>b\<bar>\<^sup>2) 0),
      major_axis_length = 2 * max \<bar>a\<bar> \<bar>b\<bar>, minor_axis_length = 2 * min \<bar>a\<bar> \<bar>b\<bar>,
      major_axis_along = (if \<bar>a\<bar> \<ge> \<bar>b\<bar> then ''x-axis'' else ''y-axis'')\<rparr>"
  have props: "ellipse_properties a b = Inr (Ellipse_geometry g)"
    unfolding g_def by (rule ellipse_properties_geometry [OF ha hb ra rb])
  have axis: "major_axis_along g = ''y-axis''" using lt by (simp add: g_def)
  have focal: "focal_distance g = 0" using focal_distance_zero [OF lt] by (simp add: g_def)
  have ecc: "0 < eccentricity g" using eccentricity_pos [OF ha lt] by (simp add: g_def)
  obtain x y where xy: "parametric_ellipse a b 800 = (x, y)" by (cases "parametric_ellipse a b 800")
  define fig where "fig =
     \<lparr>traces = Curve (x @ [x ! 0]) (y @ [y ! 0]) #
        [Vertex_marker a 0, Vertex_marker (- a) 0, Vertex_marker 0 b, Vertex_marker 0 (- b)],
      shapes = [(- \<bar>a\<bar> * 1.1, \<bar>a\<bar> * 1.1, 0, 0), (0, 0, - \<bar>b\<bar> * 1.1, \<bar>b\<bar> * 1.1)]\<rparr>"
  have plot: "plot_ellipse a b = Inr fig"
    unfolding plot_ellipse_def xy props fig_def
    by (simp add: Let_def focal)
  have "\<forall>fx fy. Focus_marker fx fy \<notin> set (traces fig)"
    by (simp add: fig_def)
  with props axis focal ecc plot
  show "\<exists>g fig.
        ellipse_properties a b = Inr (Ellipse_geometry g) \<and>
        major_axis_along g = ''y-axis'' \<and>
        focal_distance g = 0 \<and>
        0 < eccentricity g \<and>
        plot_ellipse a b = Inr fig \<and>
        (\<forall>fx fy. Focus_marker fx fy \<notin> set (traces fig))"
    by blast
next
  assume h: "\<not> \<bar>a\<bar> < 1 / 10 ^ 9 \<and> \<not> \<bar>b\<bar> < 1 / 10 ^ 9 \<and> \<bar>a\<bar> < \<bar>b\<bar> \<and> float_max < b\<^sup>2"
  then have ha: "\<not> \<bar>a\<bar> < 1 / 10 ^ 9" and hb: "\<not> \<bar>b\<bar> < 1 / 10 ^ 9"
    and ov: "float_max < a\<^sup>2 \<or> float_max < b\<^sup>2"
    by simp_all
  show e: "ellipse_properties a b = Inl OverflowError"
    by (rule ellipse_properties_overflow [OF ha hb ov])
  show "plot_ellipse a b = Inl OverflowError"
    unfolding plot_ellipse_def e by (simp add: Let_def split: prod.split)
qed

theorem tall_ellipse_has_no_foci_witness:
  "\<not> \<bar>3 :: real\<bar> < 1 / 10 ^ 9 \<and> \<not> \<bar>5 :: real\<bar> < 1 / 10 ^ 9 \<and> \<bar>3 :: real\<bar> < \<bar>5\<bar> \<and>
   (5 :: real)\<^sup>2 \<le> float_max \<and>
   (\<exists>g fig.
      ellipse_properties 3 5 = Inr (Ellipse_geometry g) \<and>
      major_axis_along g = ''y-axis'' \<and>
      focal_distance g = 0 \<and>
      0 < eccentricity g \<and>
      plot_ellipse 3 5 = Inr fig \<and>
      (\<forall>fx fy. Focus_marker fx fy \<notin> set (traces fig))) \<and>
   \<not> \<bar>2 :: real\<bar> < 1 / 10 ^ 9 \<and> \<not> \<bar>10 ^ 160 :: real\<bar> < 1 / 10 ^ 9 \<and>
   \<bar>2 :: real\<bar> < \<bar>10 ^ 160\<bar> \<and> float_max < ((10 :: real) ^ 160)\<^sup>2 \<and>
   ellipse_properties 2 (10 ^ 160) = Inl OverflowError \<and>
   plot_ellipse 2 (10 ^ 160) = Inl OverflowError"
proof -
  have ok: "(5 :: real)\<^sup>2 \<le> float_max" by (rule square_in_range) simp
  have n35: "\<not> \<bar>3 :: real\<bar> < 1 / 10 ^ 9 \<and> \<not> \<bar>5 :: real\<bar> < 1 / 10 ^ 9 \<and> \<bar>3 :: real\<bar> < \<bar>5\<bar>"
    by simp
  have two: "(2 :: real) < 10 ^ 160"
  proof -
    have "(2 :: real) < 10 ^ 1" by simp
    also have "\<dots> \<le> (10 :: real) ^ 160" by (rule power_increasing) simp_all
    finally show ?thesis .
  qed
  have nb: "\<not> \<bar>10 ^ 160 :: real\<bar> < 1 / 10 ^ 9"
  proof -
    have "(1 / 10 ^ 9 :: real) \<le> 2" by simp
    also have "\<dots> \<le> 10 ^ 160" using two by simp
    finally show ?thesis by simp
  qed
  have na: "\<not> \<bar>2 :: real\<bar> < 1 / 10 ^ 9" by simp
  have lt: "\<bar>2 :: real\<bar> < \<bar>10 ^ 160\<bar>" using two by simp
  have big: "float_max < ((10 :: real) ^ 160)\<^sup>2"
  proof -
    have "float_max < (10 :: real) ^ 309" by (rule float_max_upper)
    also have "\<dots> \<le> (10 ^ 160)\<^sup>2" by (simp add: power_mult [symmetric])
    finally show ?thesis .
  qed
  have first: "\<exists>g fig.
      ellipse_properties 3 5 = Inr (Ellipse_geometry g) \<and>
      major_axis_along g = ''y-axis'' \<and>
      focal_distance g = 0 \<and>
      0 < eccentricity g \<and>
      plot_ellipse 3 5 = Inr fig \<and>
      (\<forall>fx fy. Focus_marker fx fy \<notin> set (traces fig))"
    using tall_ellipse_has_no_foci [of 3 5] n35 ok by blast
  have second: "ellipse_properties 2 (10 ^ 160) = Inl OverflowError \<and>
      plot_ellipse 2 (10 ^ 160) = Inl OverflowError"
    using tall_ellipse_has_no_foci [of 2 "10 ^ 160"] na nb lt big by blast
  from n35 ok first na nb lt big second show ?thesis by blast
qed

end
